theory Spec2Isabelle
  imports Main
begin

section \<open>Synchronising a package directory with a remote store (main.py)\<close>

text \<open>
  The theory embeds \<^verbatim>\<open>main.py\<close>: the file store drivers, the change events, the
  \<^verbatim>\<open>StorageClient\<close> with its snapshot, and the two hooks of the \<^verbatim>\<open>SynchronizerPlugin\<close>.

  Conventions of the embedding.
  \<^item> A Python call that may raise returns a sum: \<open>Inl e\<close> is the raised exception \<open>e\<close>,
    \<open>Inr v\<close> the returned value. The values of \<open>py_exception\<close> are instances of
    Python's \<^verbatim>\<open>Exception\<close>, the class that \<^verbatim>\<open>except Exception\<close> and the bare
    \<^verbatim>\<open>except:\<close> of the source both catch.
  \<^item> Everything outside the process (the two directories, the bucket) is a world of an
    arbitrary type \<open>'w\<close>; an operation with effects takes the world and returns the new
    one next to its result, also when it raises.
  \<^item> A Python \<^verbatim>\<open>set\<close> of file names is a \<open>string set\<close>. The order in which a
    \<^verbatim>\<open>for\<close> visits a set is not fixed by Python; it is the parameter \<open>it\<close> of every
    function that iterates over a set, and \<open>it S\<close> is the sequence of names visited.
  \<^item> Objects are built as \<^verbatim>\<open>AppConfiguration\<close> and \<^verbatim>\<open>get_change_events\<close> build
    them, with every constructor argument given: the \<^verbatim>\<open>None\<close> defaults of the
    constructors' keyword arguments are not modelled.
  \<^item> \<^verbatim>\<open>LOGGER.debug\<close> and \<^verbatim>\<open>LOGGER.info\<close> lines are left out; the one
    \<^verbatim>\<open>LOGGER.error\<close> of the source appends to \<open>error_log\<close>.
  \<^item> Names are those of the source without their leading underscore. The method
    \<^verbatim>\<open>StorageClient.upload_to_remote\<close> is \<open>client_upload_to_remote\<close>, the driver's
    method of that name being a field of the driver record.
\<close>

subsection \<open>Exceptions and effects\<close>

datatype py_exception =
    ValueError string
  | NotImplementedError string
  | AttributeError string
  | OSError string

type_synonym ('w, 'a) io = "'w \<Rightarrow> (py_exception + 'a) \<times> 'w"

type_synonym set_iteration = "string set \<Rightarrow> string list"

text \<open>
  A list comprehension \<^verbatim>\<open>[f(x) for x in xs]\<close> over the visited sequence \<open>xs\<close>: the
  calls run in order, each in the world the previous one left, and the first exception
  ends the comprehension.
\<close>

fun comprehension :: "(string \<Rightarrow> ('w, 'a) io) \<Rightarrow> string list \<Rightarrow> ('w, 'a list) io" where
  "comprehension f [] w = (Inr [], w)"
| "comprehension f (x # xs) w =
     (case f x w of
        (Inl e, w') \<Rightarrow> (Inl e, w')
      | (Inr r, w') \<Rightarrow>
          (case comprehension f xs w' of
             (Inl e, w'') \<Rightarrow> (Inl e, w'')
           | (Inr rs, w'') \<Rightarrow> (Inr (r # rs), w'')))"

subsection \<open>File store drivers\<close>

text \<open>
  The methods of a file store driver that subclasses of \<^verbatim>\<open>StandardFileStoreManager\<close>
  provide. \<^verbatim>\<open>pull_all_remote_files\<close> is defined once, on the base class, over them.
\<close>

record 'w file_store_driver =
  get_remote_file_names :: "('w, string set) io"
  get_local_file_listing :: "('w, string set) io"
  remove_from_remote :: "string \<Rightarrow> ('w, bool) io"
  copy_from_remote :: "string \<Rightarrow> ('w, bool) io"
  upload_to_remote :: "string \<Rightarrow> ('w, bool) io"

definition raise :: "py_exception \<Rightarrow> ('w, 'a) io" where
  "raise e w = (Inl e, w)"

text \<open>
  The base class itself: its four abstract methods raise \<^verbatim>\<open>NotImplementedError\<close>, and
  it has no \<^verbatim>\<open>get_local_file_listing\<close> attribute at all.
\<close>

definition StandardFileStoreManager :: "'w file_store_driver" where
  "StandardFileStoreManager =
     \<lparr> get_remote_file_names =
         raise (NotImplementedError ''Subclasses must implement `get_remote_file_names`''),
       get_local_file_listing = raise (AttributeError ''get_local_file_listing''),
       remove_from_remote =
         (\<lambda>file_name. raise (NotImplementedError ''Subclasses must implement `remove_from_remote`'')),
       copy_from_remote =
         (\<lambda>file_name. raise (NotImplementedError ''Subclasses must implement `copy_from_remote`'')),
       upload_to_remote =
         (\<lambda>file_name. raise (NotImplementedError ''Subclasses must implement `upload_to_remote`'')) \<rparr>"

definition pull_all_remote_files ::
  "set_iteration \<Rightarrow> 'w file_store_driver \<Rightarrow> ('w, bool list) io" where
  "pull_all_remote_files it d w =
     (case get_remote_file_names d w of
        (Inl error, w') \<Rightarrow> (Inl error, w')
      | (Inr remote_files, w') \<Rightarrow> comprehension (copy_from_remote d) (it remote_files) w')"

subsection \<open>LocalFileStoreManager\<close>

text \<open>
  The library calls of the local driver, \<^verbatim>\<open>os.listdir\<close>, \<^verbatim>\<open>shutil.copy\<close> and
  \<^verbatim>\<open>os.remove\<close>, are parameters of the model: each returns or raises as the operating
  system decides.
\<close>

record 'w operating_system =
  os_listdir :: "string \<Rightarrow> ('w, string list) io"
  shutil_copy :: "string \<Rightarrow> string \<Rightarrow> ('w, unit) io"
  os_remove :: "string \<Rightarrow> ('w, unit) io"

record directories =
  local_directory :: string
  remote_directory :: string

definition rstrip :: "string \<Rightarrow> string \<Rightarrow> string" where
  "rstrip chars str = rev (dropWhile (\<lambda>c. c \<in> set chars) (rev str))"

definition sync_directory_path :: "directories \<Rightarrow> string" where
  "sync_directory_path m = rstrip ''/'' (remote_directory m)"

definition source_directory_path :: "directories \<Rightarrow> string" where
  "source_directory_path m = rstrip ''/'' (local_directory m)"

definition get_remote_target_path :: "directories \<Rightarrow> string \<Rightarrow> string" where
  "get_remote_target_path m file_name = sync_directory_path m @ ''/'' @ file_name"

definition get_local_target_path :: "directories \<Rightarrow> string \<Rightarrow> string" where
  "get_local_target_path m file_name = source_directory_path m @ ''/'' @ file_name"

text \<open>\<^verbatim>\<open>set(os.listdir(path))\<close>, the body of both listing methods.\<close>

definition listdir_set :: "'w operating_system \<Rightarrow> string \<Rightarrow> ('w, string set) io" where
  "listdir_set os path w =
     (case os_listdir os path w of
        (Inl e, w') \<Rightarrow> (Inl e, w')
      | (Inr names, w') \<Rightarrow> (Inr (set names), w'))"

definition copy_file :: "'w operating_system \<Rightarrow> string \<Rightarrow> string \<Rightarrow> ('w, bool) io" where
  "copy_file os src trg w =
     (case shutil_copy os src trg w of
        (Inr u, w') \<Rightarrow> (Inr True, w')
      | (Inl e, w') \<Rightarrow> (Inr False, w'))"

definition remove_file :: "'w operating_system \<Rightarrow> string \<Rightarrow> ('w, bool) io" where
  "remove_file os trg w =
     (case os_remove os trg w of
        (Inr u, w') \<Rightarrow> (Inr True, w')
      | (Inl e, w') \<Rightarrow> (Inr False, w'))"

definition LocalFileStoreManager ::
  "'w operating_system \<Rightarrow> directories \<Rightarrow> 'w file_store_driver" where
  "LocalFileStoreManager os m =
     \<lparr> get_remote_file_names = listdir_set os (sync_directory_path m),
       get_local_file_listing = listdir_set os (source_directory_path m),
       remove_from_remote = (\<lambda>file_name. remove_file os (get_remote_target_path m file_name)),
       copy_from_remote =
         (\<lambda>file_name. copy_file os (get_remote_target_path m file_name)
                                  (get_local_target_path m file_name)),
       upload_to_remote =
         (\<lambda>file_name. copy_file os (get_local_target_path m file_name)
                                  (get_remote_target_path m file_name)) \<rparr>"

subsection \<open>The program state\<close>

text \<open>
  The plugin owns one \<^verbatim>\<open>StorageClient\<close>. Its driver never changes after construction;
  its attribute \<^verbatim>\<open>_current_local_contents\<close> starts as \<^verbatim>\<open>None\<close> and is assigned by
  \<^verbatim>\<open>store_local_snapshot\<close>.
\<close>

record 'w storage_client =
  file_storage :: "'w file_store_driver"
  current_local_contents :: "string set option"

record 'w state =
  world :: 'w
  client :: "'w storage_client"
  error_log :: "py_exception list"

definition StorageClient :: "'w file_store_driver \<Rightarrow> 'w storage_client" where
  "StorageClient file_store_driver =
     \<lparr> file_storage = file_store_driver, current_local_contents = None \<rparr>"

text \<open>A driver method called from the client or from an event acts on the world only.\<close>

definition on_world :: "('w, 'a) io \<Rightarrow> ('w state, 'a) io" where
  "on_world m s = (case m (world s) of (r, w') \<Rightarrow> (r, s\<lparr>world := w'\<rparr>))"

subsection \<open>Change events\<close>

datatype event_type = REMOVAL | ADDITION | ANY

datatype 'w content_change_event =
    ContentChangeEvent "string set"
  | RemovalChangeEvent "'w file_store_driver" "string set"
  | AdditionChangeEvent "'w file_store_driver" "string set"

fun change_type :: "'w content_change_event \<Rightarrow> event_type" where
  "change_type (ContentChangeEvent diff) = ANY"
| "change_type (RemovalChangeEvent d diff) = REMOVAL"
| "change_type (AdditionChangeEvent d diff) = ADDITION"

fun difference :: "'w content_change_event \<Rightarrow> string set" where
  "difference (ContentChangeEvent diff) = diff"
| "difference (RemovalChangeEvent d diff) = diff"
| "difference (AdditionChangeEvent d diff) = diff"

fun handle :: "'w content_change_event \<Rightarrow> string \<Rightarrow> ('w, bool) io" where
  "handle (ContentChangeEvent diff) file_name =
     raise (NotImplementedError ''Subclasses must implement a change handler'')"
| "handle (RemovalChangeEvent d diff) file_name = remove_from_remote d file_name"
| "handle (AdditionChangeEvent d diff) file_name = upload_to_remote d file_name"

definition process :: "set_iteration \<Rightarrow> 'w content_change_event \<Rightarrow> ('w state, bool) io" where
  "process it ev s =
     (case on_world (comprehension (handle ev) (it (difference ev))) s of
        (Inr results, s') \<Rightarrow> (Inr True, s')
      | (Inl error, s') \<Rightarrow> (Inr False, s'\<lparr>error_log := error_log s' @ [error]\<rparr>))"

subsection \<open>StorageClient\<close>

definition pull_remote_files :: "set_iteration \<Rightarrow> ('w state, bool list) io" where
  "pull_remote_files it s = on_world (pull_all_remote_files it (file_storage (client s))) s"

definition get_local_contents :: "('w state, string set) io" where
  "get_local_contents s = on_world (get_local_file_listing (file_storage (client s))) s"

definition store_local_snapshot :: "('w state, unit) io" where
  "store_local_snapshot s =
     (case get_local_contents s of
        (Inl e, s') \<Rightarrow> (Inl e, s')
      | (Inr contents, s') \<Rightarrow>
          (Inr (), s'\<lparr>client := (client s')\<lparr>current_local_contents := Some contents\<rparr>\<rparr>))"

text \<open>
  \<^verbatim>\<open>if not self._current_local_contents\<close> is Python's truth test, and two values of the
  attribute are false: \<^verbatim>\<open>None\<close> and the empty set.
\<close>

definition get_last_local_snapshot :: "'w state \<Rightarrow> py_exception + string set" where
  "get_last_local_snapshot s =
     (case current_local_contents (client s) of
        None \<Rightarrow> Inl (ValueError ''Local snapshot have not been stored!'')
      | Some contents \<Rightarrow>
          if contents = {} then Inl (ValueError ''Local snapshot have not been stored!'')
          else Inr contents)"

text \<open>
  \<^verbatim>\<open>get_change_events\<close> has \<^verbatim>\<open>yield\<close> in its body, so it is a generator function:
  the call runs none of the body and returns a generator object. Each \<^verbatim>\<open>next\<close> resumes
  the body up to the following \<^verbatim>\<open>yield\<close>; the frame suspended at the first
  \<^verbatim>\<open>yield\<close> holds \<^verbatim>\<open>addition_difference\<close>. A generator whose body raised or returned is
  finished, and \<^verbatim>\<open>next\<close> on it raises \<^verbatim>\<open>StopIteration\<close>, which a \<^verbatim>\<open>for\<close> takes as
  the end of the sequence.
\<close>

datatype generator =
    Created
  | SuspendedAtRemoval "string set"
  | SuspendedAtAddition
  | Finished

datatype 'a yielded = Yield 'a | StopIteration

definition get_change_events :: "('w state, generator) io" where
  "get_change_events s = (Inr Created, s)"

fun gen_next ::
  "generator \<Rightarrow> 'w state \<Rightarrow>
     (py_exception + 'w content_change_event yielded) \<times> generator \<times> 'w state"
where
  "gen_next Created s =
     (case get_last_local_snapshot s of
        Inl e \<Rightarrow> (Inl e, Finished, s)
      | Inr last_snapshot \<Rightarrow>
          (case get_local_contents s of
             (Inl e, s') \<Rightarrow> (Inl e, Finished, s')
           | (Inr current_contents, s') \<Rightarrow>
               (Inr (Yield (RemovalChangeEvent (file_storage (client s'))
                              (last_snapshot - current_contents))),
                SuspendedAtRemoval (current_contents - last_snapshot), s')))"
| "gen_next (SuspendedAtRemoval addition_difference) s =
     (Inr (Yield (AdditionChangeEvent (file_storage (client s)) addition_difference)),
      SuspendedAtAddition, s)"
| "gen_next SuspendedAtAddition s = (Inr StopIteration, Finished, s)"
| "gen_next Finished s = (Inr StopIteration, Finished, s)"

definition client_upload_to_remote ::
  "set_iteration \<Rightarrow> 'w content_change_event \<Rightarrow> ('w state, bool) io" where
  "client_upload_to_remote it change_event s = process it change_event s"

subsection \<open>SynchronizerPlugin\<close>

definition sync_data_before_change :: "set_iteration \<Rightarrow> ('w state, unit) io" where
  "sync_data_before_change it s =
     (case pull_remote_files it s of
        (Inl e, s1) \<Rightarrow> (Inl e, s1)
      | (Inr results, s1) \<Rightarrow>
          (case store_local_snapshot s1 of
             (Inl e, s2) \<Rightarrow> (Inl e, s2)
           | (Inr u, s2) \<Rightarrow>
               (case get_local_contents s2 of
                  (Inl e, s3) \<Rightarrow> (Inl e, s3)
                | (Inr contents, s3) \<Rightarrow> (Inr (), s3))))"

text \<open>
  The comprehension of \<^verbatim>\<open>sync_data_after_change\<close> over the generator: it asks for an
  event, hands it to \<^verbatim>\<open>upload_to_remote\<close>, and only then asks for the next one.
\<close>

fun stage :: "generator \<Rightarrow> nat" where
  "stage Created = 3"
| "stage (SuspendedAtRemoval addition_difference) = 2"
| "stage SuspendedAtAddition = 1"
| "stage Finished = 0"

function upload_each ::
  "set_iteration \<Rightarrow> generator \<Rightarrow> ('w state, bool list) io" where
  "upload_each it g s =
     (case gen_next g s of
        (Inl e, g', s') \<Rightarrow> (Inl e, s')
      | (Inr StopIteration, g', s') \<Rightarrow> (Inr [], s')
      | (Inr (Yield change_event), g', s') \<Rightarrow>
          (case client_upload_to_remote it change_event s' of
             (Inl e, s'') \<Rightarrow> (Inl e, s'')
           | (Inr r, s'') \<Rightarrow>
               (case upload_each it g' s'' of
                  (Inl e, s''') \<Rightarrow> (Inl e, s''')
                | (Inr rs, s''') \<Rightarrow> (Inr (r # rs), s'''))))"
  by pat_completeness auto
termination
  apply (relation "measure (\<lambda>(it, g, s). stage g)")
   apply simp
  subgoal for it g s by (cases g) (auto split: sum.splits prod.splits)
  done

definition sync_data_after_change :: "set_iteration \<Rightarrow> ('w state, unit) io" where
  "sync_data_after_change it s =
     (case get_change_events s of
        (Inl e, s1) \<Rightarrow> (Inl e, s1)
      | (Inr change_events, s1) \<Rightarrow>
          (case upload_each it change_events s1 of
             (Inl e, s2) \<Rightarrow> (Inl e, s2)
           | (Inr result, s2) \<Rightarrow> (Inr (), s2)))"

subsection \<open>Observing the program\<close>

text \<open>
  \<^verbatim>\<open>list(client.get_change_events())\<close>: the whole sequence of events of one call, or the
  exception that ended it.
\<close>

function events_from ::
  "generator \<Rightarrow> 'w state \<Rightarrow> (py_exception + 'w content_change_event list) \<times> 'w state" where
  "events_from g s =
     (case gen_next g s of
        (Inl e, g', s') \<Rightarrow> (Inl e, s')
      | (Inr StopIteration, g', s') \<Rightarrow> (Inr [], s')
      | (Inr (Yield change_event), g', s') \<Rightarrow>
          (case events_from g' s' of
             (Inl e, s'') \<Rightarrow> (Inl e, s'')
           | (Inr evs, s'') \<Rightarrow> (Inr (change_event # evs), s'')))"
  by pat_completeness auto
termination
  apply (relation "measure (\<lambda>(g, s). stage g)")
   apply simp
  subgoal for g s by (cases g) (auto split: sum.splits prod.splits)
  done

definition list_change_events ::
  "'w state \<Rightarrow> (py_exception + 'w content_change_event list) \<times> 'w state" where
  "list_change_events s =
     (case get_change_events s of
        (Inl e, s1) \<Rightarrow> (Inl e, s1)
      | (Inr change_events, s1) \<Rightarrow> events_from change_events s1)"

text \<open>Whether some call of the comprehension \<^verbatim>\<open>[f(x) for x in xs]\<close> raises.\<close>

fun some_call_raises :: "(string \<Rightarrow> ('w, 'a) io) \<Rightarrow> string list \<Rightarrow> 'w \<Rightarrow> bool" where
  "some_call_raises f [] w = False"
| "some_call_raises f (x # xs) w =
     (case f x w of
        (Inl e, w') \<Rightarrow> True
      | (Inr r, w') \<Rightarrow> some_call_raises f xs w')"

text \<open>An iteration that visits every member of the set \<open>S\<close>, and each of them once.\<close>

definition visits_each_once :: "set_iteration \<Rightarrow> string set \<Rightarrow> bool" where
  "visits_each_once it S \<longleftrightarrow> set (it S) = S \<and> distinct (it S)"

text \<open>
  What \<^verbatim>\<open>pull_all_remote_files\<close> is to do with the names it found, in the words of its
  description: copy each file from the remote to the local directory, and report for each
  name whether its copy succeeded.
\<close>

fun copy_each ::
  "'w operating_system \<Rightarrow> directories \<Rightarrow> string list \<Rightarrow> 'w \<Rightarrow> bool list \<times> 'w" where
  "copy_each os m [] w = ([], w)"
| "copy_each os m (file_name # names) w =
     (case shutil_copy os (get_remote_target_path m file_name)
                          (get_local_target_path m file_name) w of
        (outcome, w') \<Rightarrow>
          (case copy_each os m names w' of
             (flags, w'') \<Rightarrow> ((case outcome of Inl e \<Rightarrow> False | Inr u \<Rightarrow> True) # flags, w'')))"

subsection \<open>A file system in memory\<close>

text \<open>
  For running the definitions: a world that is the list of the paths of the files that
  exist, an operating system over it that knows the directories \<open>dirs\<close>, and an iteration
  that visits the members of a set in the order of a given list. Listing a directory
  gives the first segment of every path below it, so a subdirectory is listed by its
  name; copying or removing succeeds on the paths of files only. The directories are
  those of the \<^verbatim>\<open>dev\<close> tier in \<^verbatim>\<open>GlobalSettings\<close>.
\<close>

definition memory_os :: "string list \<Rightarrow> (string list) operating_system" where
  "memory_os dirs =
     \<lparr> os_listdir = (\<lambda>path w.
         if path \<in> set dirs
         then (Inr (remdups (map (takeWhile (\<lambda>c. c \<noteq> CHR ''/'') \<circ> drop (length path + 1))
                              (filter (\<lambda>f. take (length path + 1) f = path @ ''/'') w))), w)
         else (Inl (OSError path), w)),
       shutil_copy = (\<lambda>src trg w.
         if src \<in> set w then (Inr (), if trg \<in> set w then w else w @ [trg])
         else (Inl (OSError src), w)),
       os_remove = (\<lambda>trg w.
         if trg \<in> set w then (Inr (), removeAll trg w)
         else (Inl (OSError trg), w)) \<rparr>"

definition in_order_of :: "string list \<Rightarrow> set_iteration" where
  "in_order_of names S = filter (\<lambda>n. n \<in> S) names"

definition dev_directories :: directories where
  "dev_directories = \<lparr> local_directory = ''./packages'', remote_directory = ''./.remote_packages'' \<rparr>"

definition dev_driver :: "(string list) file_store_driver" where
  "dev_driver = LocalFileStoreManager (memory_os [''./packages'', ''./.remote_packages'']) dev_directories"

definition started :: "string list \<Rightarrow> (string list) state" where
  "started files = \<lparr> world = files, client = StorageClient dev_driver, error_log = [] \<rparr>"

text \<open>
  The state in which the snapshot \<open>P\<close> is stored and the files that exist are \<open>files\<close>.
\<close>

definition stored :: "string set \<Rightarrow> string list \<Rightarrow> (string list) state" where
  "stored P files =
     \<lparr> world = files,
       client = (StorageClient dev_driver)\<lparr>current_local_contents := Some P\<rparr>,
       error_log = [] \<rparr>"

section \<open>Properties\<close>

declare events_from.simps [simp del] upload_each.simps [simp del]

lemmas dev_defs =
  started_def dev_driver_def dev_directories_def memory_os_def LocalFileStoreManager_def
  StorageClient_def listdir_set_def copy_file_def remove_file_def sync_directory_path_def
  source_directory_path_def get_remote_target_path_def get_local_target_path_def rstrip_def
  in_order_of_def stored_def

lemmas client_defs =
  store_local_snapshot_def get_local_contents_def on_world_def get_last_local_snapshot_def
  list_change_events_def get_change_events_def

subsection \<open>Change events\<close>

lemma some_call_raises_comprehension:
  "some_call_raises f xs w = isl (fst (comprehension f xs w))"
  by (induction xs arbitrary: w) (auto split: prod.splits sum.splits)

lemma process_returns: "\<exists>b s'. process it ev s = (Inr b, s')"
  by (auto simp: process_def split: prod.splits sum.splits)

lemma process_logs_error:
  "on_world (comprehension (handle ev) (it (difference ev))) s = (Inl e, s') \<Longrightarrow>
   process it ev s = (Inr False, s'\<lparr>error_log := error_log s' @ [e]\<rparr>)"
  by (simp add: process_def)

text \<open>
  C2. \<^verbatim>\<open>process\<close> never raises. It returns \<^verbatim>\<open>True\<close> exactly when no call of the
  handler raised, whatever booleans the calls returned, and \<^verbatim>\<open>False\<close> exactly when one
  of them raised.
\<close>

theorem process_true_iff_no_call_raises:
  "fst (process it ev s) =
     Inr (\<not> some_call_raises (handle ev) (it (difference ev)) (world s))"
  by (auto simp: some_call_raises_comprehension process_def on_world_def
      split: prod.splits sum.splits)

text \<open>
  Two runs. Removing \<^verbatim>\<open>x.whl\<close>, which the remote directory does not hold, makes the
  driver return \<^verbatim>\<open>False\<close>, and \<^verbatim>\<open>process\<close> returns \<^verbatim>\<open>True\<close>. Adding \<^verbatim>\<open>a.whl\<close>
  through the base class, whose method raises, makes \<^verbatim>\<open>process\<close> return \<^verbatim>\<open>False\<close> and
  log the exception.
\<close>

lemma process_runs:
  "process (in_order_of [''x.whl'']) (RemovalChangeEvent dev_driver {''x.whl''}) (started []) =
     (Inr True, started []) \<and>
   process (in_order_of [''a.whl'']) (AdditionChangeEvent StandardFileStoreManager {''a.whl''})
     (started [''./packages/a.whl'']) =
     (Inr False, (started [''./packages/a.whl''])
        \<lparr>error_log := [NotImplementedError ''Subclasses must implement `upload_to_remote`'']\<rparr>)"
  by (simp add: dev_defs process_def on_world_def StandardFileStoreManager_def raise_def)

text \<open>
  C9. An event whose name set is empty is processed without a call of the driver:
  \<^verbatim>\<open>process\<close> returns \<^verbatim>\<open>True\<close> and leaves the state, with the world the driver acts
  on, as it was, for every driver. An iteration of the empty set visits nothing.
\<close>

theorem process_empty_difference:
  assumes "it {} = []" and "difference ev = {}"
  shows "process it ev s = (Inr True, s)"
  using assms by (simp add: process_def on_world_def)

theorem process_empty_difference_witness:
  "in_order_of [''a.whl''] {} = [] \<and>
   difference (AdditionChangeEvent StandardFileStoreManager {}) = {} \<and>
   process (in_order_of [''a.whl'']) (AdditionChangeEvent StandardFileStoreManager {})
     (started [''./packages/a.whl'']) = (Inr True, started [''./packages/a.whl''])"
  using process_empty_difference [of "in_order_of [''a.whl'']"
      "AdditionChangeEvent StandardFileStoreManager {}" "started [''./packages/a.whl'']"]
  by (simp add: in_order_of_def)

subsection \<open>The generator of change events\<close>

lemma gen_next_Created:
  assumes "current_local_contents (client s) = Some P" and "P \<noteq> {}"
    and "get_local_file_listing (file_storage (client s)) (world s) = (Inr L, w')"
  shows "gen_next Created s =
           (Inr (Yield (RemovalChangeEvent (file_storage (client s)) (P - L))),
            SuspendedAtRemoval (L - P), s\<lparr>world := w'\<rparr>)"
  using assms by (simp add: get_last_local_snapshot_def get_local_contents_def on_world_def)

lemma events_from_SuspendedAtAddition: "events_from SuspendedAtAddition s = (Inr [], s)"
  by (simp add: events_from.simps)

lemma events_from_SuspendedAtRemoval:
  "events_from (SuspendedAtRemoval A) s =
     (Inr [AdditionChangeEvent (file_storage (client s)) A], s)"
  by (simp add: events_from.simps [of "SuspendedAtRemoval A"] events_from_SuspendedAtAddition)

text \<open>
  With a stored snapshot \<open>P\<close> that is not empty and a local listing \<open>L\<close>, the events are
  two, the removal of \<open>P - L\<close> and then the addition of \<open>L - P\<close>.
\<close>

lemma list_change_events_stored:
  assumes "current_local_contents (client s) = Some P" and "P \<noteq> {}"
    and "get_local_file_listing (file_storage (client s)) (world s) = (Inr L, w')"
  shows "list_change_events s =
           (Inr [RemovalChangeEvent (file_storage (client s)) (P - L),
                 AdditionChangeEvent (file_storage (client s)) (L - P)], s\<lparr>world := w'\<rparr>)"
  by (simp add: list_change_events_def get_change_events_def events_from.simps [of Created]
      gen_next_Created [OF assms] events_from_SuspendedAtRemoval del: gen_next.simps)

text \<open>
  The scenario of the description: the snapshot is \<open>{a.whl, b.whl}\<close> and the local
  directory now holds \<^verbatim>\<open>b.whl\<close> and \<^verbatim>\<open>c.whl\<close>.
\<close>

lemma list_change_events_scenario:
  "fst (list_change_events (stored {''a.whl'', ''b.whl''}
          [''./packages/b.whl'', ''./packages/c.whl''])) =
     Inr [RemovalChangeEvent dev_driver {''a.whl''}, AdditionChangeEvent dev_driver {''c.whl''}]"
  by (simp add: dev_defs client_defs events_from.simps [of Created]
      events_from_SuspendedAtRemoval insert_Diff_if)

lemma differences_partition:
  "(P - L) \<inter> (L - P) = {} \<and> (P - (P - L)) \<union> (L - P) = (L :: string set)"
  by blast



text \<open>
  C10. The call of \<^verbatim>\<open>get_change_events\<close> itself returns a generator and raises nothing,
  also when no snapshot is stored; the \<^verbatim>\<open>ValueError\<close> comes with the first \<^verbatim>\<open>next\<close>.
\<close>

theorem get_change_events_lazy:
  assumes "current_local_contents (client s) = None"
  shows "get_change_events s = (Inr Created, s) \<and>
         gen_next Created s =
           (Inl (ValueError ''Local snapshot have not been stored!''), Finished, s)"
  using assms by (simp add: get_change_events_def get_last_local_snapshot_def)

theorem get_change_events_lazy_witness:
  "current_local_contents (client (started [])) = None \<and>
   get_change_events (started []) = (Inr Created, started []) \<and>
   gen_next Created (started []) =
     (Inl (ValueError ''Local snapshot have not been stored!''), Finished, started [])"
  using get_change_events_lazy [of "started []"]
  by (simp add: started_def StorageClient_def)

subsection \<open>The snapshot\<close>

text \<open>A listing that is not empty is stored and returned.\<close>

lemma get_last_local_snapshot_stored:
  assumes "get_local_file_listing (file_storage (client s)) (world s) = (Inr L, w')"
    and "L \<noteq> {}"
  shows "get_last_local_snapshot (snd (store_local_snapshot s)) = Inr L"
  using assms by (simp add: client_defs)

text \<open>
  C3. The claim fails where the local directory is empty when the snapshot is taken:
  \<^verbatim>\<open>store_local_snapshot\<close> stores the empty set, and \<^verbatim>\<open>get_last_local_snapshot\<close>
  then raises the \<^verbatim>\<open>ValueError\<close> that says no snapshot was stored.
\<close>

theorem empty_snapshot_not_returned:
  "store_local_snapshot (started []) = (Inr (), stored {} []) \<and>
   get_last_local_snapshot (stored {} []) =
     Inl (ValueError ''Local snapshot have not been stored!'')"
  by (simp add: dev_defs client_defs)

text \<open>
  C1. With the empty snapshot stored and the file \<^verbatim>\<open>c.whl\<close> now in the local directory,
  the differences would be \<open>{}\<close> and \<open>{c.whl}\<close>; \<^verbatim>\<open>get_change_events\<close> raises
  instead of producing them.
\<close>

theorem no_differences_after_empty_snapshot:
  "current_local_contents (client (stored {} [''./packages/c.whl''])) = Some {} \<and>
   fst (get_local_contents (stored {} [''./packages/c.whl''])) = Inr {''c.whl''} \<and>
   fst (list_change_events (stored {} [''./packages/c.whl''])) =
     Inl (ValueError ''Local snapshot have not been stored!'')"
  by (simp add: dev_defs client_defs events_from.simps [of Created])

text \<open>
  C4. With the empty snapshot stored, the first \<^verbatim>\<open>next\<close> of the generator raises and
  the generator is finished: it yields no event, where the claim has two.
\<close>

theorem no_events_after_empty_snapshot:
  "gen_next Created (stored {} [''./packages/a.whl'', ''./packages/b.whl'']) =
     (Inl (ValueError ''Local snapshot have not been stored!''), Finished,
      stored {} [''./packages/a.whl'', ''./packages/b.whl'']) \<and>
   gen_next Finished (stored {} [''./packages/a.whl'', ''./packages/b.whl'']) =
     (Inr StopIteration, Finished, stored {} [''./packages/a.whl'', ''./packages/b.whl''])"
  by (simp add: dev_defs client_defs)

text \<open>
  Storing a listing \<open>L\<close> that is not empty and asking for the events while the listing is
  still \<open>L\<close> gives the two events with empty differences.
\<close>

lemma list_change_events_unchanged:
  assumes "get_local_file_listing (file_storage (client s)) (world s) = (Inr L, world s)"
    and "L \<noteq> {}"
  shows "fst (list_change_events (snd (store_local_snapshot s))) =
           Inr [RemovalChangeEvent (file_storage (client s)) {},
                AdditionChangeEvent (file_storage (client s)) {}]"
proof -
  let ?s' = "s\<lparr>client := (client s)\<lparr>current_local_contents := Some L\<rparr>\<rparr>"
  have st: "store_local_snapshot s = (Inr (), ?s')"
    using assms by (simp add: store_local_snapshot_def get_local_contents_def on_world_def)
  have "list_change_events ?s' =
          (Inr [RemovalChangeEvent (file_storage (client ?s')) (L - L),
                AdditionChangeEvent (file_storage (client ?s')) (L - L)],
           ?s'\<lparr>world := world s\<rparr>)"
    by (rule list_change_events_stored) (use assms in simp_all)
  with st show ?thesis by simp
qed

text \<open>
  C8. For the empty listing the claim fails: the snapshot of an empty local directory is
  taken, the directory stays empty, and asking for the events raises.
\<close>

theorem unchanged_empty_directory_raises:
  "fst (get_local_contents (started [])) = Inr {} \<and>
   fst (get_local_contents (snd (store_local_snapshot (started [])))) = Inr {} \<and>
   fst (list_change_events (snd (store_local_snapshot (started [])))) =
     Inl (ValueError ''Local snapshot have not been stored!'')"
  by (simp add: dev_defs client_defs events_from.simps [of Created])

subsection \<open>The hooks\<close>

lemma upload_each_SuspendedAtAddition: "upload_each it SuspendedAtAddition s = (Inr [], s)"
  by (simp add: upload_each.simps)

lemma upload_each_SuspendedAtRemoval:
  "\<exists>b s'. upload_each it (SuspendedAtRemoval A) s = (Inr [b], s')"
proof -
  obtain b s' where
    "process it (AdditionChangeEvent (file_storage (client s)) A) s = (Inr b, s')"
    using process_returns by blast
  then show ?thesis
    by (simp add: upload_each.simps [of it "SuspendedAtRemoval A"] client_upload_to_remote_def
        upload_each_SuspendedAtAddition)
qed

lemma upload_each_Created:
  assumes "current_local_contents (client s) = Some P" and "P \<noteq> {}"
    and "get_local_file_listing (file_storage (client s)) (world s) = (Inr L, w')"
  shows "\<exists>b1 b2 s'. upload_each it Created s = (Inr [b1, b2], s')"
proof -
  obtain b1 s2 where p:
    "process it (RemovalChangeEvent (file_storage (client s)) (P - L)) (s\<lparr>world := w'\<rparr>) =
       (Inr b1, s2)"
    using process_returns by blast
  obtain b2 s3 where u: "upload_each it (SuspendedAtRemoval (L - P)) s2 = (Inr [b2], s3)"
    using upload_each_SuspendedAtRemoval by blast
  show ?thesis
    by (simp add: upload_each.simps [of it Created] gen_next_Created [OF assms]
        client_upload_to_remote_def p u del: gen_next.simps)
qed

text \<open>
  C6, as the code has it. \<^verbatim>\<open>sync_data_after_change\<close> has no handler of its own. What an
  event raises while it is applied is absorbed by \<^verbatim>\<open>process\<close>; what
  \<^verbatim>\<open>get_change_events\<close> raises goes to the caller: the \<^verbatim>\<open>ValueError\<close> when no snapshot
  was stored, and the failure of listing the local directory. With a stored snapshot that
  is not empty and a listing that succeeds the hook returns, whatever the driver does
  with the names. (The stored empty snapshot is left aside here.)
\<close>

theorem sync_data_after_change_result:
  assumes "current_local_contents (client s) \<noteq> Some {}"
  shows "fst (sync_data_after_change it s) =
     (case current_local_contents (client s) of
        None \<Rightarrow> Inl (ValueError ''Local snapshot have not been stored!'')
      | Some P \<Rightarrow>
         (case fst (get_local_file_listing (file_storage (client s)) (world s)) of
            Inl e \<Rightarrow> Inl e
          | Inr L \<Rightarrow> Inr ()))"
proof (cases "current_local_contents (client s)")
  case None
  then show ?thesis
    by (simp add: sync_data_after_change_def get_change_events_def
        upload_each.simps [of it Created] get_last_local_snapshot_def)
next
  case (Some P)
  with assms have ne: "P \<noteq> {}" by simp
  obtain r w' where l: "get_local_file_listing (file_storage (client s)) (world s) = (r, w')"
    by (cases "get_local_file_listing (file_storage (client s)) (world s)")
  show ?thesis
  proof (cases r)
    case (Inl e)
    with Some ne l show ?thesis
      by (simp add: sync_data_after_change_def get_change_events_def
          upload_each.simps [of it Created] get_last_local_snapshot_def
          get_local_contents_def on_world_def)
  next
    case (Inr L)
    with l have l':
      "get_local_file_listing (file_storage (client s)) (world s) = (Inr L, w')"
      by simp
    obtain b1 b2 s' where "upload_each it Created s = (Inr [b1, b2], s')"
      using upload_each_Created [OF Some ne l'] by blast
    with Some l' show ?thesis
      by (simp add: sync_data_after_change_def get_change_events_def)
  qed
qed

text \<open>
  The scenario of the description: the snapshot is \<open>{a.whl, b.whl}\<close>, then \<^verbatim>\<open>c.whl\<close> is
  added and \<^verbatim>\<open>a.whl\<close> deleted. The hook returns, \<^verbatim>\<open>a.whl\<close> is removed from the remote
  directory and \<^verbatim>\<open>c.whl\<close> copied to it.
\<close>

theorem sync_data_after_change_result_witness:
  "current_local_contents (client (stored {''a.whl'', ''b.whl''}
      [''./packages/b.whl'', ''./packages/c.whl'',
       ''./.remote_packages/a.whl'', ''./.remote_packages/b.whl''])) \<noteq> Some {} \<and>
   sync_data_after_change (in_order_of [''a.whl'', ''b.whl'', ''c.whl''])
     (stored {''a.whl'', ''b.whl''}
        [''./packages/b.whl'', ''./packages/c.whl'',
         ''./.remote_packages/a.whl'', ''./.remote_packages/b.whl'']) =
     (Inr (), stored {''a.whl'', ''b.whl''}
        [''./packages/b.whl'', ''./packages/c.whl'',
         ''./.remote_packages/b.whl'', ''./.remote_packages/c.whl''])"
  using sync_data_after_change_result [of "stored {''a.whl'', ''b.whl''}
      [''./packages/b.whl'', ''./packages/c.whl'',
       ''./.remote_packages/a.whl'', ''./.remote_packages/b.whl'']"
      "in_order_of [''a.whl'', ''b.whl'', ''c.whl'']"]
  by (simp add: dev_defs client_defs sync_data_after_change_def upload_each.simps [of _ Created]
      upload_each.simps [of _ "SuspendedAtRemoval A" for A] upload_each_SuspendedAtAddition
      client_upload_to_remote_def process_def)

text \<open>
  C6 as claimed fails: with a snapshot stored and the local directory gone, the failure
  of the listing leaves \<^verbatim>\<open>sync_data_after_change\<close> as an exception.
\<close>

theorem sync_data_after_change_raises:
  "fst (sync_data_after_change (in_order_of [])
     \<lparr> world = [],
       client = \<lparr> file_storage =
                    LocalFileStoreManager (memory_os [''./.remote_packages'']) dev_directories,
                  current_local_contents = Some {''a.whl''} \<rparr>,
       error_log = [] \<rparr>) = Inl (OSError ''./packages'')"
  by (simp add: dev_defs client_defs sync_data_after_change_def upload_each.simps [of _ Created])

text \<open>
  In the other hook a failure of the remote listing goes to the caller as well.
\<close>

lemma sync_data_before_change_propagates:
  assumes "get_remote_file_names (file_storage (client s)) (world s) = (Inl e, w')"
  shows "sync_data_before_change it s = (Inl e, s\<lparr>world := w'\<rparr>)"
  using assms
  by (simp add: sync_data_before_change_def pull_remote_files_def pull_all_remote_files_def
      on_world_def)

text \<open>
  The first package of an empty store: both directories are empty before the request,
  the request adds \<^verbatim>\<open>c.whl\<close>, and the hook after it raises without copying the file.
\<close>

lemma first_package_not_uploaded:
  "sync_data_before_change (in_order_of []) (started []) = (Inr (), stored {} []) \<and>
   sync_data_after_change (in_order_of [''c.whl'']) (stored {} [''./packages/c.whl'']) =
     (Inl (ValueError ''Local snapshot have not been stored!''), stored {} [''./packages/c.whl''])"
  by (simp add: dev_defs client_defs sync_data_before_change_def pull_remote_files_def
      pull_all_remote_files_def sync_data_after_change_def upload_each.simps [of _ Created])

subsection \<open>Pulling the remote files\<close>

lemma comprehension_copy_from_remote:
  "comprehension (copy_from_remote (LocalFileStoreManager os m)) xs w =
     (case copy_each os m xs w of (flags, w') \<Rightarrow> (Inr flags, w'))"
  by (induction xs arbitrary: w)
     (auto simp: LocalFileStoreManager_def copy_file_def split: prod.splits sum.splits)

lemma length_copy_each: "length (fst (copy_each os m xs w)) = length xs"
proof (induction xs arbitrary: w)
  case Nil
  show ?case by simp
next
  case (Cons x xs)
  obtain r w' where a:
    "shutil_copy os (get_remote_target_path m x) (get_local_target_path m x) w = (r, w')"
    by (cases "shutil_copy os (get_remote_target_path m x) (get_local_target_path m x) w")
  obtain fl w'' where b: "copy_each os m xs w' = (fl, w'')"
    by (cases "copy_each os m xs w'")
  from Cons [of w'] b have "length fl = length xs" by simp
  with a b show ?case by simp
qed

text \<open>
  C7. For the local driver: when the listing of the remote directory raises,
  \<^verbatim>\<open>pull_all_remote_files\<close> raises the same exception; when it returns the names,
  \<^verbatim>\<open>pull_all_remote_files\<close> returns, with the flags of \<open>copy_each\<close> over the names as they
  are visited: \<^verbatim>\<open>False\<close> for a name whose copy failed, the copies after it still made.
  There is a flag for every name visited, so one for each name of the listing when the
  iteration visits each of them once.
\<close>

theorem pull_all_remote_files_local:
  "case get_remote_file_names (LocalFileStoreManager os m) w of
     (Inl e, w') \<Rightarrow> pull_all_remote_files it (LocalFileStoreManager os m) w = (Inl e, w')
   | (Inr names, w') \<Rightarrow>
       pull_all_remote_files it (LocalFileStoreManager os m) w =
         (Inr (fst (copy_each os m (it names) w')), snd (copy_each os m (it names) w')) \<and>
       length (fst (copy_each os m (it names) w')) = length (it names) \<and>
       (visits_each_once it names \<longrightarrow>
          length (fst (copy_each os m (it names) w')) = card names)"
proof (cases "get_remote_file_names (LocalFileStoreManager os m) w")
  case (Pair r w')
  show ?thesis
  proof (cases r)
    case (Inl e)
    with Pair show ?thesis by (simp add: pull_all_remote_files_def)
  next
    case (Inr names)
    have "visits_each_once it names \<Longrightarrow> length (it names) = card names"
      by (metis visits_each_once_def distinct_card)
    with Pair Inr show ?thesis
      by (simp add: pull_all_remote_files_def comprehension_copy_from_remote length_copy_each
          split: prod.splits)
  qed
qed

text \<open>
  The remote directory holds the file \<^verbatim>\<open>a.whl\<close> and the directory \<^verbatim>\<open>old\<close>: the copy
  of \<^verbatim>\<open>old\<close> fails, the result is \<^verbatim>\<open>[True, False]\<close>, and \<^verbatim>\<open>a.whl\<close> is copied.
\<close>

theorem pull_all_remote_files_local_witness:
  "visits_each_once (in_order_of [''a.whl'', ''old'']) {''a.whl'', ''old''} \<and>
   get_remote_file_names dev_driver
     [''./.remote_packages/a.whl'', ''./.remote_packages/old/b.whl''] =
     (Inr {''a.whl'', ''old''},
      [''./.remote_packages/a.whl'', ''./.remote_packages/old/b.whl'']) \<and>
   pull_all_remote_files (in_order_of [''a.whl'', ''old'']) dev_driver
     [''./.remote_packages/a.whl'', ''./.remote_packages/old/b.whl''] =
     (Inr [True, False],
      [''./.remote_packages/a.whl'', ''./.remote_packages/old/b.whl'', ''./packages/a.whl'']) \<and>
   length [True, False] = card {''a.whl'', ''old''}"
  using pull_all_remote_files_local [where os = "memory_os [''./packages'', ''./.remote_packages'']"
      and m = dev_directories
      and w = "[''./.remote_packages/a.whl'', ''./.remote_packages/old/b.whl'']"
      and it = "in_order_of [''a.whl'', ''old'']"]
  by (simp add: dev_defs visits_each_once_def)

end
